theory Spec2Isabelle
  imports Main "HOL-Library.Sublist"
begin

section \<open>Python values and exceptions\<close>

text \<open>
  The values stored under the keys of a yt-dlp info dict that \<^verbatim>\<open>main.py\<close> reads are
  strings or \<^verbatim>\<open>None\<close>. A key that is absent is \<open>None\<close> of the option type; a key that
  is present with the value \<^verbatim>\<open>None\<close> is \<open>Some PyNone\<close>.
\<close>

datatype pyval = PyNone | PyStr string

text \<open>Python truthiness: \<^verbatim>\<open>None\<close> and the empty string are falsy.\<close>

fun truthy :: "pyval \<Rightarrow> bool" where
  "truthy PyNone = False"
| "truthy (PyStr s) = (s \<noteq> [])"

text \<open>\<^verbatim>\<open>a or b\<close>\<close>

definition py_or :: "pyval \<Rightarrow> pyval \<Rightarrow> pyval" where
  "py_or a b = (if truthy a then a else b)"

text \<open>\<^verbatim>\<open>d.get(k)\<close> and \<^verbatim>\<open>d.get(k, default)\<close> on the entry of key \<open>k\<close>.\<close>

definition dict_get :: "pyval option \<Rightarrow> pyval" where
  "dict_get e = (case e of None \<Rightarrow> PyNone | Some v \<Rightarrow> v)"

definition dict_get_default :: "pyval option \<Rightarrow> pyval \<Rightarrow> pyval" where
  "dict_get_default e d = (case e of None \<Rightarrow> d | Some v \<Rightarrow> v)"

text \<open>
  The exceptions that can travel through the modelled code. \<open>YtdlError\<close> is any
  exception raised by \<^verbatim>\<open>ytdl.extract_info\<close>, with its text; \<open>ClientException\<close> is
  what discord.py's \<^verbatim>\<open>VoiceClient.play\<close> raises.
\<close>

datatype py_error =
  IndexError | KeyError | TypeError | AttributeError | YtdlError string | ClientException

section \<open>Data model\<close>

text \<open>
  The dict returned by \<^verbatim>\<open>ytdl.extract_info\<close>, restricted to the keys the program reads:
  \<^verbatim>\<open>"entries"\<close> (a list of such dicts), \<^verbatim>\<open>"webpage_url"\<close>, \<^verbatim>\<open>"url"\<close> and \<^verbatim>\<open>"title"\<close>.
\<close>

datatype info =
  Info (entries: "info list option") (webpage_url: "pyval option")
       (info_url: "pyval option") (info_title: "pyval option")

text \<open>
  \<^verbatim>\<open>ytdl.extract_info(url, download=False)\<close> is the media resolver, an external
  collaborator: it is a parameter of the model. It raises (\<open>Inl\<close>), returns \<^verbatim>\<open>None\<close>
  (\<open>Inr None\<close>) or returns an info dict.
\<close>

type_synonym ytdl = "string \<Rightarrow> py_error + info option"

text \<open>The song dict \<^verbatim>\<open>{"url": url, "title": title}\<close> built by \<^verbatim>\<open>play\<close> (line 177).\<close>

record song =
  url :: string
  title :: pyval

text \<open>\<^verbatim>\<open>discord.FFmpegPCMAudio(audio_url, **FFMPEG_OPTS)\<close>; the options are constant.\<close>

datatype audio_source = FFmpegPCMAudio string

text \<open>\<^verbatim>\<open>ctx.author.voice\<close>: a voice state whose \<^verbatim>\<open>channel\<close> may be \<^verbatim>\<open>None\<close>.\<close>

datatype voice_state = VoiceState (vs_channel: "nat option")

text \<open>
  The part of a \<^verbatim>\<open>commands.Context\<close> the program reads: \<^verbatim>\<open>ctx.guild.id\<close> and
  \<^verbatim>\<open>ctx.author.voice\<close>. \<^verbatim>\<open>ctx.voice_client\<close> is looked up in the bot state under the
  guild id, as discord.py does.
\<close>

record ctx =
  guild_id :: int
  author_voice :: "voice_state option"

text \<open>
  The messages passed to \<^verbatim>\<open>ctx.send\<close>, one constructor for each literal of the source:
  \<^item> \<open>QueueEnded\<close>: "Queue ended" followed by U+2705 (line 88)
  \<^item> \<open>CouldNotPlay t\<close>: "Could not play **t**" followed by U+1F622 (line 98)
  \<^item> \<open>NowPlaying t\<close>: U+1F3B6 "Now playing: **t**" (line 114)
  \<^item> \<open>NeedVoiceChannel\<close>: "You need to be in a voice channel first!" (line 133)
  \<^item> \<open>SomethingWentWrong\<close>: U+274C "Something went wrong while searching/downloading." (line 166)
  \<^item> \<open>NoPlayableUrl\<close>: U+274C "Could not get a playable URL." (line 173)
  \<^item> \<open>AddedToQueue t\<close>: U+2795 "Added to queue: **t**" (line 178)
  \<^item> \<open>Paused\<close>, \<open>NothingPlaying\<close>, \<open>Resumed\<close>, \<open>NothingPaused\<close> (lines 192, 194, 203, 205)
  \<^item> \<open>Skipped\<close>, \<open>NothingToSkip\<close> (lines 214, 216)
  \<^item> \<open>LeftVoice\<close>: U+1F44B "Left the voice channel."; \<open>NotInVoice\<close>: "I'm not in a voice
    channel." (lines 240, 242)
\<close>

datatype message =
  QueueEnded | CouldNotPlay pyval | NowPlaying pyval
| NeedVoiceChannel | SomethingWentWrong | NoPlayableUrl | AddedToQueue pyval
| Paused | NothingPlaying | Resumed | NothingPaused
| Skipped | NothingToSkip | LeftVoice | NotInVoice

text \<open>The lines written by \<^verbatim>\<open>print\<close> (lines 64, 105, 110 and 165).\<close>

datatype log_line =
  YtdlErrorSource py_error | PlayerError string | AfterPlayingError py_error
| YtdlErrorPlay py_error

subsection \<open>The voice-session collaborator\<close>

text \<open>
  Modelled from the spec: discord.py's \<^verbatim>\<open>VoiceClient\<close> is not part of the repository.
  The spec gives its contract (section 6): \<^verbatim>\<open>connect\<close>, \<^verbatim>\<open>moveTo\<close>, \<^verbatim>\<open>disconnect\<close>,
  \<^verbatim>\<open>startStream(guildId, streamHandle, onComplete)\<close>, \<^verbatim>\<open>stopStream\<close>, \<^verbatim>\<open>pauseStream\<close>,
  \<^verbatim>\<open>resumeStream\<close>, \<^verbatim>\<open>isPlaying\<close>, \<^verbatim>\<open>isPaused\<close>, with at most one stream per guild.
  A player holds the stream being played, the completion callback registered with it
  and the pause flag. The only callback the program ever registers is the closure
  \<^verbatim>\<open>after_playing\<close> of line 103, which is determined by the \<^verbatim>\<open>ctx\<close> it captured.
\<close>

record audio_player =
  source :: audio_source
  after :: ctx
  paused :: bool

record voice_client =
  connected :: bool
  channel :: nat
  player :: "audio_player option"

definition is_connected :: "voice_client \<Rightarrow> bool" where
  "is_connected vc = connected vc"

definition is_playing :: "voice_client \<Rightarrow> bool" where
  "is_playing vc = (case player vc of None \<Rightarrow> False | Some p \<Rightarrow> \<not> paused p)"

definition is_paused :: "voice_client \<Rightarrow> bool" where
  "is_paused vc = (case player vc of None \<Rightarrow> False | Some p \<Rightarrow> paused p)"

text \<open>
  Modelled from the spec: \<^verbatim>\<open>startStream\<close>. \<^verbatim>\<open>VoiceClient.play(source, after=cb)\<close> installs
  the stream with its callback; as documented by discord.py it raises
  \<^verbatim>\<open>ClientException\<close> when the client is not connected or is already playing.
\<close>

definition vc_play :: "voice_client \<Rightarrow> audio_source \<Rightarrow> ctx \<Rightarrow> py_error + voice_client" where
  "vc_play vc src cb =
     (if \<not> is_connected vc then Inl ClientException
      else if is_playing vc then Inl ClientException
      else Inr (vc\<lparr>player := Some \<lparr>source = src, after = cb, paused = False\<rparr>\<rparr>))"

text \<open>
  Modelled from the spec: \<^verbatim>\<open>stopStream\<close>. Stopping removes the current stream, and the
  collaborator then invokes the completion callback registered with that stream, once
  (spec 4.3; the comment of line 213). The result lists the callbacks to invoke.
\<close>

definition vc_stop :: "voice_client \<Rightarrow> voice_client \<times> ctx list" where
  "vc_stop vc =
     (case player vc of
        None \<Rightarrow> (vc, [])
      | Some p \<Rightarrow> (vc\<lparr>player := None\<rparr>, [after p]))"

text \<open>Modelled from the spec: \<^verbatim>\<open>pauseStream\<close> and \<^verbatim>\<open>resumeStream\<close>.\<close>

definition vc_pause :: "voice_client \<Rightarrow> voice_client" where
  "vc_pause vc = vc\<lparr>player := map_option (\<lambda>p. p\<lparr>paused := True\<rparr>) (player vc)\<rparr>"

definition vc_resume :: "voice_client \<Rightarrow> voice_client" where
  "vc_resume vc = vc\<lparr>player := map_option (\<lambda>p. p\<lparr>paused := False\<rparr>) (player vc)\<rparr>"

subsection \<open>The state of the bot\<close>

text \<open>
  \<^item> \<open>music_queues\<close>: the global dict of line 24, guild id to list of songs;
  \<^item> \<open>voice_clients\<close>: the voice client of each guild (\<^verbatim>\<open>ctx.voice_client\<close>), absent when
    the bot is in no voice channel of the guild;
  \<^item> \<open>sent\<close>: the messages sent with \<^verbatim>\<open>ctx.send\<close>, oldest first, with the guild of the
    context;
  \<^item> \<open>printed\<close>: the lines printed, oldest first;
  \<^item> \<open>completions\<close>: the completion callbacks the voice collaborator has invoked and whose
    call of \<^verbatim>\<open>play_next_in_queue\<close> has not run on the bot's loop yet, with the error
    argument of each.
  A coroutine runs from its start to its end without interleaving with another one.
  \<^verbatim>\<open>ctx.send\<close>, \<^verbatim>\<open>connect\<close>, \<^verbatim>\<open>move_to\<close> and \<^verbatim>\<open>disconnect\<close> are taken to succeed.
\<close>

record bot_state =
  music_queues :: "int \<rightharpoonup> song list"
  voice_clients :: "int \<rightharpoonup> voice_client"
  sent :: "(int \<times> message) list"
  printed :: "log_line list"
  completions :: "(ctx \<times> string option) list"

definition send :: "ctx \<Rightarrow> message \<Rightarrow> bot_state \<Rightarrow> bot_state" where
  "send c m s = s\<lparr>sent := sent s @ [(guild_id c, m)]\<rparr>"

definition print_lines :: "log_line list \<Rightarrow> bot_state \<Rightarrow> bot_state" where
  "print_lines ls s = s\<lparr>printed := printed s @ ls\<rparr>"

definition print_line :: "log_line \<Rightarrow> bot_state \<Rightarrow> bot_state" where
  "print_line l s = print_lines [l] s"

section \<open>Queue helpers\<close>

text \<open>
  \<^verbatim>\<open>get_guild_queue\<close> (lines 45-48) creates the empty queue of a guild on first reference
  and returns the list stored in the dict.
\<close>

definition get_guild_queue :: "int \<Rightarrow> bot_state \<Rightarrow> song list \<times> bot_state" where
  "get_guild_queue g s =
     (case music_queues s g of
        None \<Rightarrow> ([], s\<lparr>music_queues := (music_queues s)(g \<mapsto> [])\<rparr>)
      | Some queue \<Rightarrow> (queue, s))"

text \<open>
  \<^verbatim>\<open>add_to_queue\<close> (lines 51-53): \<^verbatim>\<open>queue.append(song)\<close> mutates the list held by the
  dict.
\<close>

definition add_to_queue :: "int \<Rightarrow> song \<Rightarrow> bot_state \<Rightarrow> bot_state" where
  "add_to_queue g sg s =
     (case get_guild_queue g s of
        (queue, s1) \<Rightarrow> s1\<lparr>music_queues := (music_queues s1)(g \<mapsto> queue @ [sg])\<rparr>)"

text \<open>
  Lines 86-91 of \<^verbatim>\<open>play_next_in_queue\<close>: fetch the guild's queue; when it is empty
  nothing is removed, otherwise \<^verbatim>\<open>queue.pop(0)\<close> removes and returns its first element.
\<close>

definition pop_next :: "int \<Rightarrow> bot_state \<Rightarrow> song option \<times> bot_state" where
  "pop_next g s =
     (case get_guild_queue g s of
        (queue, s1) \<Rightarrow>
          (case queue of
             [] \<Rightarrow> (None, s1)
           | sg # rest \<Rightarrow> (Some sg, s1\<lparr>music_queues := (music_queues s1)(g \<mapsto> rest)\<rparr>)))"

section \<open>Resolution at playback time\<close>

text \<open>
  \<^verbatim>\<open>if "entries" in data: data = data["entries"][0]\<close> (lines 70-71 and 161-162); indexing
  an empty list raises \<^verbatim>\<open>IndexError\<close>.
\<close>

definition first_entry :: "info \<Rightarrow> py_error + info" where
  "first_entry data =
     (case entries data of
        None \<Rightarrow> Inr data
      | Some es \<Rightarrow> (case es of [] \<Rightarrow> Inl IndexError | e # _ \<Rightarrow> Inr e))"

text \<open>
  \<^verbatim>\<open>create_audio_source\<close> (lines 56-77). Only the call of \<^verbatim>\<open>extract_info\<close> is inside the
  \<^verbatim>\<open>try\<close>; an \<^verbatim>\<open>IndexError\<close> of line 71 leaves the function. The result is the raised
  exception, \<^verbatim>\<open>None\<close>, or the audio source, together with the lines the call printed.
\<close>

definition create_audio_source ::
  "ytdl \<Rightarrow> string \<Rightarrow> (py_error + audio_source option) \<times> log_line list" where
  "create_audio_source yt u =
     (case yt u of
        Inl e \<Rightarrow> (Inr None, [YtdlErrorSource e])
      | Inr None \<Rightarrow> (Inr None, [])
      | Inr (Some data) \<Rightarrow>
          (case first_entry data of
             Inl err \<Rightarrow> (Inl err, [])
           | Inr d \<Rightarrow>
               (case dict_get (info_url d) of
                  PyNone \<Rightarrow> (Inr None, [])
                | PyStr audio_url \<Rightarrow>
                    if audio_url = [] then (Inr None, [])
                    else (Inr (Some (FFmpegPCMAudio audio_url)), []))))"

section \<open>The playback orchestrator\<close>

text \<open>
  \<^verbatim>\<open>play_next_in_queue\<close> (lines 80-115). The result is the exception that leaves the
  coroutine, if any, and the state reached. The recursive call of line 100 runs on a
  queue that the \<^verbatim>\<open>pop(0)\<close> of line 91 has made shorter. The send of line 113 is
  submitted to the loop; the model performs it at once.
\<close>

function play_next_in_queue :: "ytdl \<Rightarrow> ctx \<Rightarrow> bot_state \<Rightarrow> py_error option \<times> bot_state" where
  "play_next_in_queue yt c s =
     (case voice_clients s (guild_id c) of
        None \<Rightarrow> (None, s)
      | Some voice_client \<Rightarrow>
          if \<not> is_connected voice_client then (None, s)
          else
            (case pop_next (guild_id c) s of
               (None, s1) \<Rightarrow> (None, send c QueueEnded s1)
             | (Some sg, s1) \<Rightarrow>
                 (case create_audio_source yt (url sg) of
                    (Inl err, out) \<Rightarrow> (Some err, print_lines out s1)
                  | (Inr None, out) \<Rightarrow>
                      play_next_in_queue yt c
                        (send c (CouldNotPlay (title sg)) (print_lines out s1))
                  | (Inr (Some src), out) \<Rightarrow>
                      (case vc_play voice_client src c of
                         Inl err \<Rightarrow> (Some err, print_lines out s1)
                       | Inr vc' \<Rightarrow>
                           (None, send c (NowPlaying (title sg))
                              ((print_lines out s1)
                                 \<lparr>voice_clients := (voice_clients s1)(guild_id c \<mapsto> vc')\<rparr>))))))"
  by pat_completeness auto

text \<open>
  The queue of a guild as \<^verbatim>\<open>get_guild_queue\<close> returns it: the list stored under the
  guild id, the empty list when there is none yet.
\<close>

definition queue_of :: "bot_state \<Rightarrow> int \<Rightarrow> song list" where
  "queue_of s g = (case music_queues s g of None \<Rightarrow> [] | Some queue \<Rightarrow> queue)"

termination play_next_in_queue
proof (relation "measure (\<lambda>(yt, c, s). length (queue_of s (guild_id c)))")
  show "wf (measure (\<lambda>(yt, c, s). length (queue_of s (guild_id c))))"
    by simp
next
  fix yt :: ytdl and c :: ctx and s y :: bot_state and x2 x x2a xa ya b
  assume p: "(x, y) = pop_next (guild_id c) s" "x = Some x2a"
  from p have "pop_next (guild_id c) s = (Some x2a, y)"
    by simp
  then have "queue_of s (guild_id c) = x2a # queue_of y (guild_id c)"
    by (auto simp: pop_next_def get_guild_queue_def queue_of_def
        split: option.splits list.splits)
  then show "((yt, c, send c (CouldNotPlay (title x2a)) (print_lines ya y)), (yt, c, s))
      \<in> measure (\<lambda>(yt, c, s). length (queue_of s (guild_id c)))"
    by (simp add: send_def print_lines_def queue_of_def)
qed

text \<open>
  \<^verbatim>\<open>after_playing\<close> (lines 103-110), the completion callback: it prints the player's
  error if there is one, runs \<^verbatim>\<open>play_next_in_queue(ctx)\<close> on the bot's loop, and
  prints the exception of that call instead of raising it.
\<close>

definition after_playing :: "ytdl \<Rightarrow> ctx \<Rightarrow> string option \<Rightarrow> bot_state \<Rightarrow> bot_state" where
  "after_playing yt c err s =
     (case play_next_in_queue yt c
             (case err of None \<Rightarrow> s | Some e \<Rightarrow> print_line (PlayerError e) s) of
        (None, s') \<Rightarrow> s'
      | (Some e, s') \<Rightarrow> print_line (AfterPlayingError e) s')"

text \<open>
  Modelled from the spec: the delivery of a completion (spec 4.2, step 5). The oldest
  callback that the voice collaborator has invoked runs.
\<close>

definition deliver :: "ytdl \<Rightarrow> bot_state \<Rightarrow> bot_state" where
  "deliver yt s =
     (case completions s of
        [] \<Rightarrow> s
      | (cb, err) # rest \<Rightarrow> after_playing yt cb err (s\<lparr>completions := rest\<rparr>))"

section \<open>Commands\<close>

text \<open>\<^verbatim>\<open>query.startswith("http://") or query.startswith("https://")\<close>\<close>

definition is_link :: "string \<Rightarrow> bool" where
  "is_link query = (prefix ''http://'' query \<or> prefix ''https://'' query)"

text \<open>
  The body of the \<^verbatim>\<open>try\<close> of \<^verbatim>\<open>play\<close> (lines 147-162). Subscripting or testing
  membership in \<^verbatim>\<open>None\<close> raises \<^verbatim>\<open>TypeError\<close>, a missing \<^verbatim>\<open>"entries"\<close> key
  \<^verbatim>\<open>KeyError\<close>, an empty list of entries \<^verbatim>\<open>IndexError\<close>.
\<close>

definition play_resolve :: "ytdl \<Rightarrow> string \<Rightarrow> py_error + info" where
  "play_resolve yt query =
     (if is_link query then
        (case yt query of
           Inl e \<Rightarrow> Inl e
         | Inr None \<Rightarrow> Inl TypeError
         | Inr (Some data) \<Rightarrow> first_entry data)
      else
        (case yt (''ytsearch:'' @ query) of
           Inl e \<Rightarrow> Inl e
         | Inr None \<Rightarrow> Inl TypeError
         | Inr (Some res) \<Rightarrow>
             (case entries res of
                None \<Rightarrow> Inl KeyError
              | Some es \<Rightarrow>
                  (case es of
                     [] \<Rightarrow> Inl IndexError
                   | data # _ \<Rightarrow> first_entry data))))"

text \<open>\<^verbatim>\<open>ctx.author.voice\<close> and its \<^verbatim>\<open>channel\<close>, both of which line 132 tests.\<close>

definition author_channel :: "ctx \<Rightarrow> nat option" where
  "author_channel c = (case author_voice c of None \<Rightarrow> None | Some vs \<Rightarrow> vs_channel vs)"

text \<open>
  Modelled from the spec: \<^verbatim>\<open>connect\<close> and \<^verbatim>\<open>moveTo\<close> (lines 139-142). Connecting gives
  the guild a connected voice client with no stream.
\<close>

definition connect_or_move :: "ctx \<Rightarrow> nat \<Rightarrow> bot_state \<Rightarrow> bot_state" where
  "connect_or_move c voice_channel s =
     (case voice_clients s (guild_id c) of
        None \<Rightarrow>
          s\<lparr>voice_clients := (voice_clients s)
               (guild_id c \<mapsto> \<lparr>connected = True, channel = voice_channel, player = None\<rparr>)\<rparr>
      | Some vc \<Rightarrow>
          if channel vc \<noteq> voice_channel
          then s\<lparr>voice_clients := (voice_clients s)(guild_id c \<mapsto> vc\<lparr>channel := voice_channel\<rparr>)\<rparr>
          else s)"

text \<open>\<^verbatim>\<open>play\<close> (lines 128-183).\<close>

definition play :: "ytdl \<Rightarrow> ctx \<Rightarrow> string \<Rightarrow> bot_state \<Rightarrow> py_error option \<times> bot_state" where
  "play yt c query s =
     (case author_channel c of
        None \<Rightarrow> (None, send c NeedVoiceChannel s)
      | Some voice_channel \<Rightarrow>
          (case play_resolve yt query of
             Inl e \<Rightarrow>
               (None, send c SomethingWentWrong
                        (print_line (YtdlErrorPlay e) (connect_or_move c voice_channel s)))
           | Inr data \<Rightarrow>
               (case py_or (dict_get (webpage_url data)) (dict_get (info_url data)) of
                  PyNone \<Rightarrow> (None, send c NoPlayableUrl (connect_or_move c voice_channel s))
                | PyStr u \<Rightarrow>
                    if u = [] then (None, send c NoPlayableUrl (connect_or_move c voice_channel s))
                    else
                      (case send c (AddedToQueue (dict_get_default (info_title data) (PyStr ''Unknown title'')))
                              (add_to_queue (guild_id c)
                                 \<lparr>url = u,
                                  title = dict_get_default (info_title data) (PyStr ''Unknown title'')\<rparr>
                                 (connect_or_move c voice_channel s)) of
                         s3 \<Rightarrow>
                           (case voice_clients s3 (guild_id c) of
                              None \<Rightarrow> (Some AttributeError, s3)
                            | Some voice_client \<Rightarrow>
                                if \<not> is_playing voice_client then play_next_in_queue yt c s3
                                else (None, s3))))))"

text \<open>\<^verbatim>\<open>pause\<close> (lines 186-194) and \<^verbatim>\<open>resume\<close> (lines 197-205).\<close>

definition pause :: "ctx \<Rightarrow> bot_state \<Rightarrow> bot_state" where
  "pause c s =
     (case voice_clients s (guild_id c) of
        None \<Rightarrow> send c NothingPlaying s
      | Some vc \<Rightarrow>
          if is_playing vc
          then send c Paused (s\<lparr>voice_clients := (voice_clients s)(guild_id c \<mapsto> vc_pause vc)\<rparr>)
          else send c NothingPlaying s)"

definition resume :: "ctx \<Rightarrow> bot_state \<Rightarrow> bot_state" where
  "resume c s =
     (case voice_clients s (guild_id c) of
        None \<Rightarrow> send c NothingPaused s
      | Some vc \<Rightarrow>
          if is_paused vc
          then send c Resumed (s\<lparr>voice_clients := (voice_clients s)(guild_id c \<mapsto> vc_resume vc)\<rparr>)
          else send c NothingPaused s)"

text \<open>
  \<^verbatim>\<open>skip\<close> (lines 208-216): \<^verbatim>\<open>vc.stop()\<close>, then the message. The callbacks that the
  stop makes the collaborator invoke are recorded as invoked, with no error.
\<close>

definition skip :: "ctx \<Rightarrow> bot_state \<Rightarrow> bot_state" where
  "skip c s =
     (case voice_clients s (guild_id c) of
        None \<Rightarrow> send c NothingToSkip s
      | Some vc \<Rightarrow>
          if is_playing vc
          then
            (case vc_stop vc of
               (vc', cbs) \<Rightarrow>
                 send c Skipped
                   (s\<lparr>voice_clients := (voice_clients s)(guild_id c \<mapsto> vc'),
                      completions := completions s @ map (\<lambda>cb. (cb, None)) cbs\<rparr>))
          else send c NothingToSkip s)"

text \<open>
  \<^verbatim>\<open>leave\<close> (lines 235-242). Modelled from the spec: \<^verbatim>\<open>disconnect\<close> stops the stream, if
  any, and the guild has no voice client afterwards.
\<close>

definition leave :: "ctx \<Rightarrow> bot_state \<Rightarrow> bot_state" where
  "leave c s =
     (case voice_clients s (guild_id c) of
        None \<Rightarrow> send c NotInVoice s
      | Some vc \<Rightarrow>
          (case vc_stop vc of
             (vc', cbs) \<Rightarrow>
               send c LeftVoice
                 (s\<lparr>voice_clients := (voice_clients s)(guild_id c := None),
                    completions := completions s @ map (\<lambda>cb. (cb, None)) cbs\<rparr>)))"

section \<open>Sequences of queue operations\<close>

text \<open>
  A run of enqueues (\<^verbatim>\<open>add_to_queue\<close>) and dequeues (lines 86-91) on the queues of any
  guilds, in any order; the result lists the songs that the dequeues returned, each
  with its guild, in the order in which they were returned. A dequeue on an empty queue
  returns nothing.
\<close>

datatype queue_op = Enqueue int song | Dequeue int

fun run_queue_ops :: "queue_op list \<Rightarrow> bot_state \<Rightarrow> (int \<times> song) list \<times> bot_state" where
  "run_queue_ops [] s = ([], s)"
| "run_queue_ops (Enqueue g sg # ops) s = run_queue_ops ops (add_to_queue g sg s)"
| "run_queue_ops (Dequeue g # ops) s =
     (case pop_next g s of
        (None, s1) \<Rightarrow> run_queue_ops ops s1
      | (Some sg, s1) \<Rightarrow>
          (case run_queue_ops ops s1 of (out, s2) \<Rightarrow> ((g, sg) # out, s2)))"

text \<open>The songs that a run enqueues for guild \<open>g\<close>, and those it returns for \<open>g\<close>.\<close>

fun enqueued :: "int \<Rightarrow> queue_op list \<Rightarrow> song list" where
  "enqueued g [] = []"
| "enqueued g (Enqueue h sg # ops) = (if h = g then sg # enqueued g ops else enqueued g ops)"
| "enqueued g (Dequeue h # ops) = enqueued g ops"

fun dequeued :: "int \<Rightarrow> (int \<times> song) list \<Rightarrow> song list" where
  "dequeued g [] = []"
| "dequeued g ((h, sg) # out) = (if h = g then sg # dequeued g out else dequeued g out)"

section \<open>Predicates used by the properties\<close>

text \<open>
  Line 83 lets \<^verbatim>\<open>play_next_in_queue\<close> go on: the guild has a voice client and it is
  connected.
\<close>

definition connected_in :: "bot_state \<Rightarrow> int \<Rightarrow> bool" where
  "connected_in s g = (case voice_clients s g of None \<Rightarrow> False | Some vc \<Rightarrow> is_connected vc)"

text \<open>
  A queued song fails resolution when \<^verbatim>\<open>create_audio_source\<close> returns \<^verbatim>\<open>None\<close> for its
  url (lines 63-65, 67-68 and 74-75).
\<close>

definition fails_resolution :: "ytdl \<Rightarrow> song \<Rightarrow> bool" where
  "fails_resolution yt sg = (fst (create_audio_source yt (url sg)) = Inr None)"

section \<open>Example inputs\<close>

definition ex_ctx :: ctx where
  "ex_ctx = \<lparr>guild_id = 1, author_voice = Some (VoiceState (Some 7))\<rparr>"

definition ex_ctx_no_voice :: ctx where
  "ex_ctx_no_voice = \<lparr>guild_id = 1, author_voice = None\<rparr>"

definition ex_song_a :: song where
  "ex_song_a = \<lparr>url = ''https://a'', title = PyStr ''A''\<rparr>"

definition ex_song_b :: song where
  "ex_song_b = \<lparr>url = ''https://b'', title = PyStr ''B''\<rparr>"

definition ex_info_a :: info where
  "ex_info_a =
     Info None (Some (PyStr ''https://a'')) (Some (PyStr ''https://cdn/a'')) (Some (PyStr ''A''))"

definition ex_info_b :: info where
  "ex_info_b =
     Info None (Some (PyStr ''https://b'')) (Some (PyStr ''https://cdn/b'')) (Some (PyStr ''B''))"

text \<open>A resolver that raises for every query.\<close>

definition ex_yt_fail :: ytdl where
  "ex_yt_fail u = Inl (YtdlError ''unavailable'')"

text \<open>
  A resolver that knows two links, answers the search for "song" with two entries,
  answers the search for "nothing" with no entry, and raises otherwise.
\<close>

definition ex_yt :: ytdl where
  "ex_yt u =
     (if u = ''https://a'' then Inr (Some ex_info_a)
      else if u = ''https://b'' then Inr (Some ex_info_b)
      else if u = ''ytsearch:song'' then Inr (Some (Info (Some [ex_info_a, ex_info_b]) None None None))
      else if u = ''ytsearch:nothing'' then Inr (Some (Info (Some []) None None None))
      else Inl (YtdlError ''unavailable''))"

text \<open>No voice client, no queue.\<close>

definition ex_fresh :: bot_state where
  "ex_fresh =
     \<lparr>music_queues = Map.empty, voice_clients = Map.empty, sent = [], printed = [],
      completions = []\<rparr>"

text \<open>No voice client, one song queued for guild 1.\<close>

definition ex_left :: bot_state where
  "ex_left = ex_fresh\<lparr>music_queues := [1 \<mapsto> [ex_song_b]]\<rparr>"

text \<open>Guild 1 has a connected voice client with no stream and two songs queued.\<close>

definition ex_idle :: bot_state where
  "ex_idle =
     ex_fresh\<lparr>music_queues := [1 \<mapsto> [ex_song_a, ex_song_b]],
              voice_clients := [1 \<mapsto> \<lparr>connected = True, channel = 7, player = None\<rparr>]\<rparr>"

text \<open>Guild 1 has a connected voice client with no stream and an empty queue.\<close>

definition ex_drained :: bot_state where
  "ex_drained =
     ex_fresh\<lparr>music_queues := [1 \<mapsto> []],
              voice_clients := [1 \<mapsto> \<lparr>connected = True, channel = 7, player = None\<rparr>]\<rparr>"

text \<open>Guild 1 is playing song A, with song B queued.\<close>

definition ex_playing :: bot_state where
  "ex_playing =
     ex_fresh\<lparr>music_queues := [1 \<mapsto> [ex_song_b]],
              voice_clients :=
                [1 \<mapsto> \<lparr>connected = True, channel = 7,
                         player = Some \<lparr>source = FFmpegPCMAudio ''https://cdn/a'',
                                        after = ex_ctx, paused = False\<rparr>\<rparr>]\<rparr>"




section \<open>Basic facts about the queue store\<close>

declare play_next_in_queue.simps [simp del]

lemma queue_of_add_to_queue:
  "queue_of (add_to_queue g sg s) g' = (if g' = g then queue_of s g @ [sg] else queue_of s g')"
  by (auto simp: add_to_queue_def get_guild_queue_def queue_of_def split: option.splits)

lemma pop_next_fst:
  "fst (pop_next g s) = (case queue_of s g of [] \<Rightarrow> None | sg # _ \<Rightarrow> Some sg)"
  by (auto simp: pop_next_def get_guild_queue_def queue_of_def split: option.splits list.splits)

lemma pop_next_queue_of:
  "queue_of (snd (pop_next g s)) g' = (if g' = g then tl (queue_of s g) else queue_of s g')"
  by (auto simp: pop_next_def get_guild_queue_def queue_of_def split: option.splits list.splits)

lemma pop_next_Nil:
  "queue_of s g = [] \<Longrightarrow> pop_next g s = (None, snd (get_guild_queue g s))"
  by (auto simp: pop_next_def get_guild_queue_def queue_of_def split: option.splits list.splits)

lemma pop_next_Cons:
  "queue_of s g = sg # rest \<Longrightarrow>
   pop_next g s = (Some sg, s\<lparr>music_queues := (music_queues s)(g \<mapsto> rest)\<rparr>)"
  by (auto simp: pop_next_def get_guild_queue_def queue_of_def split: option.splits list.splits)

lemma queue_of_frame [simp]:
  "queue_of (send c m s) = queue_of s"
  "queue_of (print_lines out s) = queue_of s"
  by (simp_all add: send_def print_lines_def queue_of_def fun_eq_iff)

lemma queue_of_update [simp]:
  "queue_of (s\<lparr>music_queues := (music_queues s)(g \<mapsto> q)\<rparr>) = (queue_of s)(g := q)"
  by (simp add: queue_of_def fun_eq_iff)

lemma queue_of_get_guild_queue [simp]:
  "queue_of (snd (get_guild_queue g s)) = queue_of s"
  by (auto simp: get_guild_queue_def queue_of_def fun_eq_iff split: option.splits)

lemma frame_send [simp]:
  "voice_clients (send c m s) = voice_clients s"
  "completions (send c m s) = completions s"
  "printed (send c m s) = printed s"
  "music_queues (send c m s) = music_queues s"
  "sent (send c m s) = sent s @ [(guild_id c, m)]"
  by (simp_all add: send_def)

lemma frame_print_lines [simp]:
  "voice_clients (print_lines out s) = voice_clients s"
  "completions (print_lines out s) = completions s"
  "printed (print_lines out s) = printed s @ out"
  "music_queues (print_lines out s) = music_queues s"
  "sent (print_lines out s) = sent s"
  by (simp_all add: print_lines_def)

lemma frame_get_guild_queue [simp]:
  "voice_clients (snd (get_guild_queue g s)) = voice_clients s"
  "completions (snd (get_guild_queue g s)) = completions s"
  "printed (snd (get_guild_queue g s)) = printed s"
  "sent (snd (get_guild_queue g s)) = sent s"
  by (simp_all add: get_guild_queue_def split: option.splits)

section \<open>One call of the orchestrator, case by case\<close>

text \<open>The guard of lines 82-84.\<close>

lemma play_next_disconnected:
  "\<not> connected_in s (guild_id c) \<Longrightarrow> play_next_in_queue yt c s = (None, s)"
  by (simp add: play_next_in_queue.simps [of yt c s] connected_in_def split: option.splits)

lemma connected_inE:
  assumes "connected_in s g"
  obtains vc where "voice_clients s g = Some vc" "is_connected vc"
  using assms by (auto simp: connected_in_def split: option.splits)

text \<open>The empty queue (lines 87-89).\<close>

lemma play_next_empty:
  assumes "voice_clients s (guild_id c) = Some vc" "is_connected vc"
    and "queue_of s (guild_id c) = []"
  shows "play_next_in_queue yt c s
    = (None, send c QueueEnded (snd (get_guild_queue (guild_id c) s)))"
  using assms by (simp add: play_next_in_queue.simps [of yt c s] pop_next_Nil)

text \<open>The head of the queue does not resolve (lines 97-101).\<close>

lemma play_next_failed:
  assumes "voice_clients s (guild_id c) = Some vc" "is_connected vc"
    and "queue_of s (guild_id c) = sg # rest"
    and "create_audio_source yt (url sg) = (Inr None, out)"
  shows "play_next_in_queue yt c s =
     play_next_in_queue yt c
       (send c (CouldNotPlay (title sg))
          (print_lines out (s\<lparr>music_queues := (music_queues s)(guild_id c \<mapsto> rest)\<rparr>)))"
  using assms by (simp add: play_next_in_queue.simps [of yt c s] pop_next_Cons)

text \<open>The resolution of the head raises (line 71).\<close>

lemma play_next_raised:
  assumes "voice_clients s (guild_id c) = Some vc" "is_connected vc"
    and "queue_of s (guild_id c) = sg # rest"
    and "create_audio_source yt (url sg) = (Inl err, out)"
  shows "play_next_in_queue yt c s =
     (Some err, print_lines out (s\<lparr>music_queues := (music_queues s)(guild_id c \<mapsto> rest)\<rparr>))"
  using assms by (simp add: play_next_in_queue.simps [of yt c s] pop_next_Cons)

text \<open>The head of the queue resolves (lines 103-115).\<close>

lemma play_next_resolved:
  assumes "voice_clients s (guild_id c) = Some vc" "is_connected vc"
    and "queue_of s (guild_id c) = sg # rest"
    and "create_audio_source yt (url sg) = (Inr (Some src), out)"
  shows "play_next_in_queue yt c s =
     (case vc_play vc src c of
        Inl err \<Rightarrow>
          (Some err, print_lines out (s\<lparr>music_queues := (music_queues s)(guild_id c \<mapsto> rest)\<rparr>))
      | Inr vc' \<Rightarrow>
          (None, send c (NowPlaying (title sg))
             (print_lines out
                (s\<lparr>music_queues := (music_queues s)(guild_id c \<mapsto> rest),
                   voice_clients := (voice_clients s)(guild_id c \<mapsto> vc')\<rparr>))))"
  using assms
  by (simp add: play_next_in_queue.simps [of yt c s] pop_next_Cons print_lines_def send_def
      split: sum.splits)

section \<open>Properties of a whole call\<close>

text \<open>
  The call runs through a queue of songs that all fail to resolve, by induction on the
  queue.
\<close>

lemma play_next_all_fail:
  assumes "voice_clients s (guild_id c) = Some vc" "is_connected vc"
    and "queue_of s (guild_id c) = q"
    and "\<forall>sg\<in>set q. fails_resolution yt sg"
  shows "fst (play_next_in_queue yt c s) = None
    \<and> sent (snd (play_next_in_queue yt c s))
        = sent s @ map (\<lambda>sg. (guild_id c, CouldNotPlay (title sg))) q @ [(guild_id c, QueueEnded)]
    \<and> queue_of (snd (play_next_in_queue yt c s)) = (queue_of s)(guild_id c := [])
    \<and> voice_clients (snd (play_next_in_queue yt c s)) = voice_clients s
    \<and> completions (snd (play_next_in_queue yt c s)) = completions s"
  using assms
proof (induction q arbitrary: s)
  case Nil
  have "(queue_of s)(guild_id c := []) = queue_of s"
    using Nil.prems(3) by (auto simp: fun_eq_iff)
  then show ?case
    using Nil.prems by (simp add: play_next_empty)
next
  case (Cons sg rest)
  obtain out where r: "create_audio_source yt (url sg) = (Inr None, out)"
    using Cons.prems(4) by (cases "create_audio_source yt (url sg)") (simp add: fails_resolution_def)
  define s' where "s' = send c (CouldNotPlay (title sg))
          (print_lines out (s\<lparr>music_queues := (music_queues s)(guild_id c \<mapsto> rest)\<rparr>))"
  have step: "play_next_in_queue yt c s = play_next_in_queue yt c s'"
    unfolding s'_def using Cons.prems r by (simp add: play_next_failed)
  have a: "voice_clients s' (guild_id c) = Some vc"
    using Cons.prems(1) by (simp add: s'_def)
  have b: "queue_of s' (guild_id c) = rest"
    by (simp add: s'_def)
  have c: "\<forall>x\<in>set rest. fails_resolution yt x"
    using Cons.prems(4) by simp
  have q: "(queue_of s')(guild_id c := []) = (queue_of s)(guild_id c := [])"
    by (simp add: s'_def)
  have v: "voice_clients s' = voice_clients s" "completions s' = completions s"
    "sent s' = sent s @ [(guild_id c, CouldNotPlay (title sg))]"
    by (simp_all add: s'_def)
  show ?case
    using Cons.IH [OF a Cons.prems(2) b c] unfolding step q v by simp
qed

text \<open>A call removes songs from the head of the queue only, and from no other queue.\<close>

lemma play_next_suffix_aux:
  "queue_of s (guild_id c) = q \<Longrightarrow>
   suffix (queue_of (snd (play_next_in_queue yt c s)) g) (queue_of s g)"
proof (induction q arbitrary: s)
  case Nil
  show ?case
  proof (cases "connected_in s (guild_id c)")
    case False
    then show ?thesis by (simp add: play_next_disconnected)
  next
    case True
    then obtain vc where "voice_clients s (guild_id c) = Some vc" "is_connected vc"
      by (rule connected_inE)
    with Nil show ?thesis by (simp add: play_next_empty)
  qed
next
  case (Cons sg rest)
  show ?case
  proof (cases "connected_in s (guild_id c)")
    case False
    then show ?thesis by (simp add: play_next_disconnected)
  next
    case True
    then obtain vc where vc: "voice_clients s (guild_id c) = Some vc" "is_connected vc"
      by (rule connected_inE)
    define s1 where "s1 = s\<lparr>music_queues := (music_queues s)(guild_id c \<mapsto> rest)\<rparr>"
    have s1: "suffix (queue_of s1 g) (queue_of s g)"
      using Cons.prems by (auto simp: s1_def suffix_Cons)
    obtain r out where r: "create_audio_source yt (url sg) = (r, out)"
      by (cases "create_audio_source yt (url sg)")
    show ?thesis
    proof (cases r)
      case (Inl err)
      have "play_next_in_queue yt c s = (Some err, print_lines out s1)"
        unfolding s1_def using play_next_raised [OF vc Cons.prems] r Inl by simp
      with s1 show ?thesis by simp
    next
      case (Inr so)
      show ?thesis
      proof (cases so)
        case None
        define s' where "s' = send c (CouldNotPlay (title sg)) (print_lines out s1)"
        have step: "play_next_in_queue yt c s = play_next_in_queue yt c s'"
          unfolding s'_def s1_def using play_next_failed [OF vc Cons.prems] r Inr None by simp
        have "queue_of s' (guild_id c) = rest"
          by (simp add: s'_def s1_def)
        then have "suffix (queue_of (snd (play_next_in_queue yt c s')) g) (queue_of s' g)"
          by (rule Cons.IH)
        moreover have "queue_of s' g = queue_of s1 g"
          by (simp add: s'_def)
        ultimately show ?thesis
          unfolding step using s1 suffix_order.order_trans by fastforce
      next
        case (Some src)
        have e: "play_next_in_queue yt c s =
          (case vc_play vc src c of
             Inl err \<Rightarrow> (Some err, print_lines out s1)
           | Inr vc' \<Rightarrow>
               (None, send c (NowPlaying (title sg))
                  (print_lines out (s1\<lparr>voice_clients := (voice_clients s)(guild_id c \<mapsto> vc')\<rparr>))))"
          unfolding s1_def using play_next_resolved [OF vc Cons.prems] r Inr Some by simp
        have "queue_of (s1\<lparr>voice_clients := x\<rparr>) = queue_of s1" for x
          by (simp add: queue_of_def fun_eq_iff)
        with s1 show ?thesis
          unfolding e by (cases "vc_play vc src c") simp_all
      qed
    qed
  qed
qed

lemma play_next_suffix:
  "suffix (queue_of (snd (play_next_in_queue yt c s)) g) (queue_of s g)"
  by (rule play_next_suffix_aux [OF refl])




lemma connect_or_move_frame:
  "music_queues (connect_or_move c ch s) = music_queues s"
  "sent (connect_or_move c ch s) = sent s"
  "completions (connect_or_move c ch s) = completions s"
  "printed (connect_or_move c ch s) = printed s"
  by (simp_all add: connect_or_move_def split: option.splits)

section \<open>First in, first out\<close>

lemma run_queue_ops_fifo:
  "dequeued g (fst (run_queue_ops ops s)) @ queue_of (snd (run_queue_ops ops s)) g
     = queue_of s g @ enqueued g ops"
proof (induction ops arbitrary: s)
  case Nil
  show ?case by simp
next
  case (Cons op ops)
  show ?case
  proof (cases op)
    case (Enqueue h sg)
    then show ?thesis
      using Cons.IH [of "add_to_queue h sg s"] by (simp add: queue_of_add_to_queue)
  next
    case (Dequeue h)
    obtain r s1 where p: "pop_next h s = (r, s1)"
      by (cases "pop_next h s")
    have f: "r = (case queue_of s h of [] \<Rightarrow> None | sg # _ \<Rightarrow> Some sg)"
      using pop_next_fst [of h s] p by simp
    have q: "queue_of s1 g = (if g = h then tl (queue_of s h) else queue_of s g)"
      using pop_next_queue_of [of h s g] p by simp
    show ?thesis
      using Cons.IH [of s1] Dequeue p f q
      by (cases "queue_of s h") (auto split: prod.splits)
  qed
qed

lemma run_enqueues:
  "run_queue_ops (map (Enqueue g) xs @ ops) s
     = run_queue_ops ops (foldl (\<lambda>s sg. add_to_queue g sg s) s xs)"
  by (induction xs arbitrary: s) auto

lemma queue_of_enqueues:
  "queue_of (foldl (\<lambda>s sg. add_to_queue g sg s) s xs) g = queue_of s g @ xs"
  by (induction xs arbitrary: s) (auto simp: queue_of_add_to_queue)

lemma run_dequeues:
  "fst (run_queue_ops (replicate n (Dequeue g)) s) = map (Pair g) (take n (queue_of s g))"
proof (induction n arbitrary: s)
  case 0
  show ?case by simp
next
  case (Suc n)
  obtain r s1 where p: "pop_next g s = (r, s1)"
    by (cases "pop_next g s")
  have f: "r = (case queue_of s g of [] \<Rightarrow> None | sg # _ \<Rightarrow> Some sg)"
    using pop_next_fst [of g s] p by simp
  have q: "queue_of s1 g = tl (queue_of s g)"
    using pop_next_queue_of [of g s g] p by simp
  show ?case
    using Suc.IH [of s1] p f q
    by (cases "queue_of s g") (auto split: prod.splits)
qed

text \<open>
  C1. The queue of a guild is first in, first out. \<^verbatim>\<open>add_to_queue\<close> appends the song at
  the tail of the guild's queue; the dequeue of \<^verbatim>\<open>play_next_in_queue\<close> (lines 86-91)
  returns the head and leaves the tail. After the songs \<open>xs\<close> have been enqueued, \<open>n\<close>
  successive dequeues return the first \<open>n\<close> songs of the queue in the order in which
  they were enqueued. In any run of enqueues and dequeues on any guilds, the songs
  returned for guild \<open>g\<close> followed by the songs still queued for \<open>g\<close> are the songs that
  were queued at the start followed by the songs enqueued for \<open>g\<close>, in order. A whole
  call of \<^verbatim>\<open>play_next_in_queue\<close>, with its retries, removes songs from the head only:
  what it leaves is a suffix of the queue it found.
\<close>

theorem queue_is_fifo:
  "queue_of (add_to_queue g sg s) g = queue_of s g @ [sg]
   \<and> fst (pop_next g s) = (case queue_of s g of [] \<Rightarrow> None | x # _ \<Rightarrow> Some x)
   \<and> queue_of (snd (pop_next g s)) g = tl (queue_of s g)
   \<and> fst (run_queue_ops (map (Enqueue g) xs @ replicate n (Dequeue g)) s)
       = map (Pair g) (take n (queue_of s g @ xs))
   \<and> dequeued g (fst (run_queue_ops ops s)) @ queue_of (snd (run_queue_ops ops s)) g
       = queue_of s g @ enqueued g ops
   \<and> suffix (queue_of (snd (play_next_in_queue yt c s)) g) (queue_of s g)"
  by (simp add: queue_of_add_to_queue pop_next_fst pop_next_queue_of run_enqueues run_dequeues
      queue_of_enqueues run_queue_ops_fifo play_next_suffix)

section \<open>Runs of failures and the empty queue\<close>

text \<open>
  C2, as the code has it. When the guild has a connected voice client and every song
  of its queue fails resolution (\<^verbatim>\<open>create_audio_source\<close> returns \<^verbatim>\<open>None\<close>), one call of
  \<^verbatim>\<open>play_next_in_queue\<close> returns without an exception, having sent one "could not
  play" message for each queued song, in queue order, and then "queue ended"; the
  guild's queue is empty afterwards, the other queues are as they were, and the voice
  clients are untouched, so that no stream is started. The function is total: its
  recursion is on a queue that gets shorter.
\<close>

theorem play_next_skips_failures:
  "connected_in s (guild_id c) \<Longrightarrow>
   \<forall>sg\<in>set (queue_of s (guild_id c)). fails_resolution yt sg \<Longrightarrow>
   fst (play_next_in_queue yt c s) = None
   \<and> sent (snd (play_next_in_queue yt c s))
       = sent s @ map (\<lambda>sg. (guild_id c, CouldNotPlay (title sg))) (queue_of s (guild_id c))
           @ [(guild_id c, QueueEnded)]
   \<and> queue_of (snd (play_next_in_queue yt c s)) = (queue_of s)(guild_id c := [])
   \<and> voice_clients (snd (play_next_in_queue yt c s)) = voice_clients s
   \<and> completions (snd (play_next_in_queue yt c s)) = completions s"
proof -
  assume a: "connected_in s (guild_id c)"
    and f: "\<forall>sg\<in>set (queue_of s (guild_id c)). fails_resolution yt sg"
  from a obtain vc where vc: "voice_clients s (guild_id c) = Some vc" "is_connected vc"
    by (rule connected_inE)
  show ?thesis
    by (rule play_next_all_fail [OF vc refl f])
qed

theorem play_next_skips_failures_witness:
  "connected_in ex_idle (guild_id ex_ctx)
   \<and> queue_of ex_idle (guild_id ex_ctx) = [ex_song_a, ex_song_b]
   \<and> fails_resolution ex_yt_fail ex_song_a \<and> fails_resolution ex_yt_fail ex_song_b
   \<and> fst (play_next_in_queue ex_yt_fail ex_ctx ex_idle) = None
   \<and> sent (snd (play_next_in_queue ex_yt_fail ex_ctx ex_idle))
       = [(1, CouldNotPlay (PyStr ''A'')), (1, CouldNotPlay (PyStr ''B'')), (1, QueueEnded)]
   \<and> queue_of (snd (play_next_in_queue ex_yt_fail ex_ctx ex_idle)) 1 = []
   \<and> voice_clients (snd (play_next_in_queue ex_yt_fail ex_ctx ex_idle)) = voice_clients ex_idle"
  using play_next_skips_failures [of ex_idle ex_ctx ex_yt_fail]
  by (simp add: connected_in_def is_connected_def queue_of_def fails_resolution_def
      create_audio_source_def ex_yt_fail_def ex_idle_def ex_fresh_def ex_ctx_def
      ex_song_a_def ex_song_b_def)

text \<open>
  C2 as stated fails: in a guild with no voice client whose queue holds one song that
  fails resolution, the call consumes nothing and sends nothing.
\<close>

theorem failures_without_voice_client_counterexample:
  "fails_resolution ex_yt_fail ex_song_b
   \<and> queue_of ex_left (guild_id ex_ctx) = [ex_song_b]
   \<and> queue_of (snd (play_next_in_queue ex_yt_fail ex_ctx ex_left)) (guild_id ex_ctx) = [ex_song_b]
   \<and> sent (snd (play_next_in_queue ex_yt_fail ex_ctx ex_left)) = []"
  by (simp add: play_next_in_queue.simps queue_of_def fails_resolution_def
      create_audio_source_def ex_yt_fail_def ex_left_def ex_fresh_def ex_ctx_def)

text \<open>
  C3, as the code has it. When the guild has a connected voice client and its queue is
  empty, \<^verbatim>\<open>play_next_in_queue\<close> sends "queue ended" and nothing else: it raises nothing,
  every queue is as it was, and the voice clients are untouched, so that no stream is
  started and a guild with no stream stays without one.
\<close>

theorem play_next_on_empty_queue:
  "connected_in s (guild_id c) \<Longrightarrow> queue_of s (guild_id c) = [] \<Longrightarrow>
   fst (play_next_in_queue yt c s) = None
   \<and> sent (snd (play_next_in_queue yt c s)) = sent s @ [(guild_id c, QueueEnded)]
   \<and> queue_of (snd (play_next_in_queue yt c s)) = queue_of s
   \<and> voice_clients (snd (play_next_in_queue yt c s)) = voice_clients s
   \<and> completions (snd (play_next_in_queue yt c s)) = completions s
   \<and> printed (snd (play_next_in_queue yt c s)) = printed s"
proof -
  assume a: "connected_in s (guild_id c)" and q: "queue_of s (guild_id c) = []"
  from a obtain vc where vc: "voice_clients s (guild_id c) = Some vc" "is_connected vc"
    by (rule connected_inE)
  show ?thesis
    by (simp add: play_next_empty [OF vc q])
qed

theorem play_next_on_empty_queue_witness:
  "connected_in ex_drained (guild_id ex_ctx) \<and> queue_of ex_drained (guild_id ex_ctx) = []
   \<and> fst (play_next_in_queue ex_yt ex_ctx ex_drained) = None
   \<and> sent (snd (play_next_in_queue ex_yt ex_ctx ex_drained)) = [(1, QueueEnded)]
   \<and> queue_of (snd (play_next_in_queue ex_yt ex_ctx ex_drained)) 1 = []
   \<and> voice_clients (snd (play_next_in_queue ex_yt ex_ctx ex_drained)) = voice_clients ex_drained"
  using play_next_on_empty_queue [of ex_drained ex_ctx ex_yt]
  by (simp add: connected_in_def is_connected_def queue_of_def ex_drained_def ex_fresh_def ex_ctx_def)

text \<open>
  C3 as stated fails: in a guild with no voice client and an empty queue, the call
  sends no "queue ended".
\<close>

theorem queue_ended_counterexample:
  "queue_of ex_fresh (guild_id ex_ctx) = []
   \<and> sent (snd (play_next_in_queue ex_yt ex_ctx ex_fresh)) = []"
  by (simp add: play_next_in_queue.simps queue_of_def ex_fresh_def ex_ctx_def)

section \<open>The guard on the voice client\<close>

text \<open>
  C10. When the guild has no connected voice client, \<^verbatim>\<open>play_next_in_queue\<close> returns at
  once: it raises nothing and the state is the one it was called in, so no song is
  dequeued, no stream is started and no message is sent, whatever the queue holds.
\<close>

theorem play_next_without_voice_client:
  "\<not> connected_in s (guild_id c) \<Longrightarrow> play_next_in_queue yt c s = (None, s)"
  by (rule play_next_disconnected)

theorem play_next_without_voice_client_witness:
  "\<not> connected_in ex_left (guild_id ex_ctx)
   \<and> play_next_in_queue ex_yt ex_ctx ex_left = (None, ex_left)"
  using play_next_without_voice_client [of ex_left ex_ctx ex_yt]
  by (simp add: connected_in_def ex_left_def ex_fresh_def ex_ctx_def)

section \<open>One stream at a time\<close>







section \<open>The skip command\<close>







section \<open>The play command\<close>

text \<open>
  C7. When the caller of \<^verbatim>\<open>play\<close> is not in a voice channel, the command sends "You need
  to be in a voice channel first!" and returns; nothing else of the state changes:
  no song is enqueued, no voice client is connected or moved, and
  \<^verbatim>\<open>play_next_in_queue\<close> is not run.
\<close>

theorem play_rejects_caller_outside_voice:
  "author_channel c = None \<Longrightarrow>
   play yt c query s = (None, s\<lparr>sent := sent s @ [(guild_id c, NeedVoiceChannel)]\<rparr>)"
  by (simp add: play_def send_def)

theorem play_rejects_caller_outside_voice_witness:
  "author_channel ex_ctx_no_voice = None
   \<and> play ex_yt ex_ctx_no_voice ''song'' ex_idle
       = (None, ex_idle\<lparr>sent := sent ex_idle @ [(guild_id ex_ctx_no_voice, NeedVoiceChannel)]\<rparr>)"
  using play_rejects_caller_outside_voice [of ex_ctx_no_voice ex_yt "''song''" ex_idle]
  by (simp add: author_channel_def ex_ctx_no_voice_def)

text \<open>
  C8. \<^verbatim>\<open>play\<close> resolves a link by passing it to the resolver and a search term by
  passing it with the prefix "ytsearch:". A link whose answer has no entries resolves
  to that answer; whenever the answer lists entries, the first is taken, whatever the
  others are: for a link, for a search (where a first result that itself lists entries
  gives its first entry), and in \<^verbatim>\<open>create_audio_source\<close>, whose result is then computed
  from the url of the first entry alone.
\<close>

theorem first_entry_is_selected:
  "(is_link query \<and> yt query = Inr (Some data) \<and> entries data = None
      \<longrightarrow> play_resolve yt query = Inr data)
   \<and> (is_link query \<and> yt query = Inr (Some data) \<and> entries data = Some (e # es)
      \<longrightarrow> play_resolve yt query = Inr e)
   \<and> (\<not> is_link query \<and> yt (''ytsearch:'' @ query) = Inr (Some data)
        \<and> entries data = Some (e # es) \<and> entries e = None
      \<longrightarrow> play_resolve yt query = Inr e)
   \<and> (\<not> is_link query \<and> yt (''ytsearch:'' @ query) = Inr (Some data)
        \<and> entries data = Some (e # es) \<and> entries e = Some (e' # es')
      \<longrightarrow> play_resolve yt query = Inr e')
   \<and> (yt u = Inr (Some data) \<and> entries data = Some (e # es)
      \<longrightarrow> create_audio_source yt u =
           (case dict_get (info_url e) of
              PyNone \<Rightarrow> (Inr None, [])
            | PyStr audio_url \<Rightarrow>
                if audio_url = [] then (Inr None, [])
                else (Inr (Some (FFmpegPCMAudio audio_url)), [])))"
  by (simp add: play_resolve_def first_entry_def create_audio_source_def)

theorem first_entry_is_selected_witness:
  "is_link ''https://a'' \<and> ex_yt ''https://a'' = Inr (Some ex_info_a) \<and> entries ex_info_a = None
   \<and> play_resolve ex_yt ''https://a'' = Inr ex_info_a
   \<and> \<not> is_link ''song''
   \<and> ex_yt (''ytsearch:'' @ ''song'') = Inr (Some (Info (Some [ex_info_a, ex_info_b]) None None None))
   \<and> play_resolve ex_yt ''song'' = Inr ex_info_a"
  using first_entry_is_selected [of "''https://a''" ex_yt ex_info_a]
    first_entry_is_selected [of "''song''" ex_yt "Info (Some [ex_info_a, ex_info_b]) None None None"
      ex_info_a "[ex_info_b]"]
  by (simp add: is_link_def ex_yt_def ex_info_a_def)

lemma play_unresolved:
  assumes "play_resolve yt query = Inl err
     \<or> (play_resolve yt query = Inr data
          \<and> \<not> truthy (py_or (dict_get (webpage_url data)) (dict_get (info_url data))))"
  shows "fst (play yt c query s) = None
   \<and> music_queues (snd (play yt c query s)) = music_queues s
   \<and> sent (snd (play yt c query s))
       = sent s @ [(guild_id c,
                    if author_channel c = None then NeedVoiceChannel
                    else if play_resolve yt query = Inl err then SomethingWentWrong
                    else NoPlayableUrl)]
   \<and> voice_clients (snd (play yt c query s))
       = (case author_channel c of
            None \<Rightarrow> voice_clients s
          | Some voice_channel \<Rightarrow> voice_clients (connect_or_move c voice_channel s))
   \<and> completions (snd (play yt c query s)) = completions s"
proof (cases "author_channel c")
  case None
  then show ?thesis by (simp add: play_def)
next
  case (Some ch)
  from assms show ?thesis
  proof
    assume "play_resolve yt query = Inl err"
    with Some show ?thesis
      by (simp add: play_def print_line_def connect_or_move_frame)
  next
    assume b: "play_resolve yt query = Inr data
        \<and> \<not> truthy (py_or (dict_get (webpage_url data)) (dict_get (info_url data)))"
    show ?thesis
    proof (cases "py_or (dict_get (webpage_url data)) (dict_get (info_url data))")
      case PyNone
      with Some b show ?thesis
        by (simp add: play_def connect_or_move_frame)
    next
      case (PyStr u)
      with b have "u = []" by simp
      with Some b PyStr show ?thesis
        by (simp add: play_def connect_or_move_frame)
    qed
  qed
qed

text \<open>
  C9. A search whose answer lists no entry raises \<^verbatim>\<open>IndexError\<close> inside the \<^verbatim>\<open>try\<close> of
  \<^verbatim>\<open>play\<close>. Whenever the resolution in \<^verbatim>\<open>play\<close> raises, or gives data with no usable
  url, the command returns without an exception having sent exactly one message, an
  error message; the dict of queues is the one before the command, the voice clients
  are those left by the connection step, without a new stream, and no completion is
  added: no song is enqueued and \<^verbatim>\<open>play_next_in_queue\<close> is not run.
\<close>

theorem play_unresolved_query:
  "(\<not> is_link query \<and> yt (''ytsearch:'' @ query) = Inr (Some res) \<and> entries res = Some []
      \<longrightarrow> play_resolve yt query = Inl IndexError)
   \<and> (play_resolve yt query = Inl err
        \<or> (play_resolve yt query = Inr data
             \<and> \<not> truthy (py_or (dict_get (webpage_url data)) (dict_get (info_url data))))
      \<longrightarrow> fst (play yt c query s) = None
        \<and> music_queues (snd (play yt c query s)) = music_queues s
        \<and> sent (snd (play yt c query s))
            = sent s @ [(guild_id c,
                         if author_channel c = None then NeedVoiceChannel
                         else if play_resolve yt query = Inl err then SomethingWentWrong
                         else NoPlayableUrl)]
        \<and> voice_clients (snd (play yt c query s))
            = (case author_channel c of
                 None \<Rightarrow> voice_clients s
               | Some voice_channel \<Rightarrow> voice_clients (connect_or_move c voice_channel s))
        \<and> completions (snd (play yt c query s)) = completions s)"
proof (rule conjI; rule impI)
  assume "\<not> is_link query \<and> yt (''ytsearch:'' @ query) = Inr (Some res) \<and> entries res = Some []"
  then show "play_resolve yt query = Inl IndexError"
    by (simp add: play_resolve_def)
next
  assume "play_resolve yt query = Inl err
        \<or> (play_resolve yt query = Inr data
             \<and> \<not> truthy (py_or (dict_get (webpage_url data)) (dict_get (info_url data))))"
  then show "fst (play yt c query s) = None
        \<and> music_queues (snd (play yt c query s)) = music_queues s
        \<and> sent (snd (play yt c query s))
            = sent s @ [(guild_id c,
                         if author_channel c = None then NeedVoiceChannel
                         else if play_resolve yt query = Inl err then SomethingWentWrong
                         else NoPlayableUrl)]
        \<and> voice_clients (snd (play yt c query s))
            = (case author_channel c of
                 None \<Rightarrow> voice_clients s
               | Some voice_channel \<Rightarrow> voice_clients (connect_or_move c voice_channel s))
        \<and> completions (snd (play yt c query s)) = completions s"
    by (rule play_unresolved)
qed

theorem play_unresolved_query_witness:
  "\<not> is_link ''nothing''
   \<and> ex_yt (''ytsearch:'' @ ''nothing'') = Inr (Some (Info (Some []) None None None))
   \<and> play_resolve ex_yt ''nothing'' = Inl IndexError
   \<and> fst (play ex_yt ex_ctx ''nothing'' ex_idle) = None
   \<and> music_queues (snd (play ex_yt ex_ctx ''nothing'' ex_idle)) = music_queues ex_idle
   \<and> sent (snd (play ex_yt ex_ctx ''nothing'' ex_idle)) = [(1, SomethingWentWrong)]"
  using play_unresolved_query [of "''nothing''" ex_yt "Info (Some []) None None None"
      IndexError ex_info_a ex_ctx ex_idle]
  by (simp add: is_link_def ex_yt_def author_channel_def ex_ctx_def ex_idle_def ex_fresh_def)

section \<open>The leave command\<close>

text \<open>
  C6, as the code has it. \<^verbatim>\<open>leave\<close> does not touch the queues: the dict of queues after
  the command is the dict before it. The command only disconnects the voice client,
  if there is one, and sends a message.
\<close>

theorem leave_keeps_queues:
  "music_queues (leave c s) = music_queues s"
  by (simp add: leave_def send_def vc_stop_def split: option.splits prod.splits)

text \<open>
  C6 as stated fails: after \<^verbatim>\<open>leave\<close> in a guild that is playing with one song queued,
  the song is still queued, also once the completion callback of the stopped stream
  has run.
\<close>

theorem leave_clears_queue_counterexample:
  "queue_of (leave ex_ctx ex_playing) (guild_id ex_ctx) = [ex_song_b]
   \<and> queue_of (deliver ex_yt (leave ex_ctx ex_playing)) (guild_id ex_ctx) = [ex_song_b]
   \<and> queue_of (leave ex_ctx ex_playing) (guild_id ex_ctx) \<noteq> []"
  by (simp add: leave_def deliver_def after_playing_def play_next_in_queue.simps send_def
      vc_stop_def queue_of_def ex_ctx_def ex_playing_def ex_fresh_def)

section \<open>Scenarios\<close>

text \<open>
  The model run on concrete inputs. A search that resolves, in a guild with a connected
  voice client, no stream and an empty queue: the first result is enqueued, dequeued at
  once and played. Two queued songs that resolve: the first plays, and each skip makes
  the next one play, until the queue has ended.
\<close>

lemma scenario_play_search:
  "play ex_yt ex_ctx ''song'' ex_drained =
     (None,
      ex_drained\<lparr>voice_clients :=
                   [1 \<mapsto> \<lparr>connected = True, channel = 7,
                            player = Some \<lparr>source = FFmpegPCMAudio ''https://cdn/a'',
                                           after = ex_ctx, paused = False\<rparr>\<rparr>],
                 sent := [(1, AddedToQueue (PyStr ''A'')), (1, NowPlaying (PyStr ''A''))]\<rparr>)"
  by (simp add: play_def play_resolve_def first_entry_def is_link_def author_channel_def
      connect_or_move_def add_to_queue_def get_guild_queue_def pop_next_def
      play_next_in_queue.simps create_audio_source_def vc_play_def is_playing_def
      is_connected_def py_or_def dict_get_def dict_get_default_def send_def print_lines_def
      ex_yt_def ex_info_a_def ex_ctx_def ex_drained_def ex_fresh_def)

lemma scenario_two_songs:
  "sent (deliver ex_yt (skip ex_ctx (deliver ex_yt (skip ex_ctx
           (snd (play_next_in_queue ex_yt ex_ctx ex_idle))))))
     = [(1, NowPlaying (PyStr ''A'')), (1, Skipped), (1, NowPlaying (PyStr ''B'')),
        (1, Skipped), (1, QueueEnded)]"
  by (simp add: deliver_def skip_def after_playing_def vc_stop_def
      get_guild_queue_def pop_next_def
      play_next_in_queue.simps create_audio_source_def first_entry_def vc_play_def is_playing_def
      is_connected_def dict_get_def send_def print_lines_def
      ex_yt_def ex_info_a_def ex_info_b_def ex_song_a_def ex_song_b_def ex_ctx_def ex_idle_def
      ex_fresh_def)

end
